theory Spec2Isabelle
  imports Main
begin

section \<open>The TAPI registry (lib/Core/Registry.cpp)\<close>

text \<open>
  The registry keeps two ordered lists, of readers and of writers, and routes each request
  to the first element that accepts it. Readers and writers are abstract classes: the
  registry only calls their virtual methods, so an object is modelled by the record of its
  methods. Every method is \<^verbatim>\<open>const\<close> and takes everything it works on as an argument,
  hence a function of its arguments.
\<close>

subsection \<open>Values passed through the registry\<close>

text \<open>
  Modelled from the spec: \<^verbatim>\<open>FileType\<close> is declared in a header that is not among the
  sources. The spec lists the tags; the registry itself only names \<^verbatim>\<open>Invalid\<close>. A
  restriction to acceptable file types (the parameter \<^verbatim>\<open>types\<close> of \<^verbatim>\<open>canRead\<close>) is a
  set of tags.
\<close>

datatype FileType = Invalid | BinaryDylib | TBD_v1 | TBD_v2 | API_v1 | Configuration_v1

text \<open>
  Modelled from the spec: \<^verbatim>\<open>Registry::readFile\<close> calls \<^verbatim>\<open>reader->canRead\<close> with two
  arguments, so the third one takes the default of the missing declaration; the spec puts
  no restriction on the file types there, which is the full set.
\<close>

definition FileType_All :: "FileType set" where
  "FileType_All = UNIV"

text \<open>
  \<^verbatim>\<open>std::errc\<close> and \<^verbatim>\<open>std::error_code\<close>: an error code is either clear (\<open>None\<close>, what
  \<^verbatim>\<open>if (ec)\<close> reads as false) or holds a condition.
\<close>

datatype errc = not_supported | no_such_file_or_directory | permission_denied
  | no_space_on_device | io_error

type_synonym error_code = "errc option"

text \<open>
  \<^verbatim>\<open>llvm::Error\<close> in its failure state: the two payloads the registry creates itself
  (\<^verbatim>\<open>StringError\<close> and, through \<^verbatim>\<open>errorCodeToError\<close>, \<^verbatim>\<open>ECError\<close>) and any other
  payload a reader or writer may return. A function returning \<^verbatim>\<open>Error\<close> is modelled
  with \<open>Error option\<close>, \<open>None\<close> being \<^verbatim>\<open>Error::success()\<close>; \<^verbatim>\<open>Expected<T>\<close> is the sum
  \<open>Error + T\<close>.
\<close>

datatype Error = StringError string errc | ECError errc | ErrorInfo string

definition errorCodeToError :: "error_code \<Rightarrow> Error option" where
  "errorCodeToError ec = (case ec of None \<Rightarrow> None | Some c \<Rightarrow> Some (ECError c))"

text \<open>The error both dispatch loops end with.\<close>

definition unsupported_file_type :: Error where
  "unsupported_file_type = StringError ''unsupported file type'' not_supported"

record MemoryBuffer =
  Buffer :: string
  BufferIdentifier :: string

text \<open>
  Modelled from the spec: the class \<^verbatim>\<open>File\<close> is declared in a header that is not among
  the sources. The registry reads its path only.
\<close>

record File =
  Path :: string
  Type :: FileType
  InstallName :: string

text \<open>
  \<^verbatim>\<open>llvm::raw_ostream\<close>: the bytes written so far and the error state the stream keeps
  itself (\<^verbatim>\<open>has_error()\<close>).
\<close>

record raw_ostream =
  written :: string
  stream_error :: error_code

subsection \<open>Readers, writers and the registry\<close>

text \<open>
  The type variables stand for \<^verbatim>\<open>llvm::file_magic\<close>, \<^verbatim>\<open>ReadFlags\<close> and
  \<^verbatim>\<open>ArchitectureSet\<close>, which the registry hands on without looking at them.
\<close>

record ('m, 'fl, 'ar) Reader =
  canRead :: "'m \<Rightarrow> MemoryBuffer \<Rightarrow> FileType set \<Rightarrow> bool"
  getFileType :: "'m \<Rightarrow> MemoryBuffer \<Rightarrow> Error + FileType"
  readFile :: "MemoryBuffer \<Rightarrow> 'fl \<Rightarrow> 'ar \<Rightarrow> Error + File"

record Writer =
  canWrite :: "File \<Rightarrow> bool"
  writeFile :: "raw_ostream \<Rightarrow> File \<Rightarrow> Error option \<times> raw_ostream"

record ('m, 'fl, 'ar) Registry =
  readers :: "('m, 'fl, 'ar) Reader list"
  writers :: "Writer list"

subsection \<open>The read path\<close>

text \<open>
  \<^verbatim>\<open>identify_magic\<close> is LLVM's sniffer; it is a parameter of the three functions that
  call it. Each \<^verbatim>\<open>for\<close> loop over \<^verbatim>\<open>_readers\<close> is a recursion over the list.
\<close>

fun canRead_loop ::
  "'m \<Rightarrow> MemoryBuffer \<Rightarrow> FileType set \<Rightarrow> ('m, 'fl, 'ar) Reader list \<Rightarrow> bool" where
  "canRead_loop magic memBuffer types [] = False"
| "canRead_loop magic memBuffer types (reader # rest) =
     (if canRead reader magic memBuffer types then True
      else canRead_loop magic memBuffer types rest)"

definition Registry_canRead ::
  "(string \<Rightarrow> 'm) \<Rightarrow> ('m, 'fl, 'ar) Registry \<Rightarrow> MemoryBuffer \<Rightarrow> FileType set \<Rightarrow> bool" where
  "Registry_canRead identify_magic reg memBuffer types =
     (let data = Buffer memBuffer;
          magic = identify_magic data
      in canRead_loop magic memBuffer types (readers reg))"

fun getFileType_loop ::
  "'m \<Rightarrow> MemoryBuffer \<Rightarrow> ('m, 'fl, 'ar) Reader list \<Rightarrow> Error + FileType" where
  "getFileType_loop magic memBuffer [] = Inr Invalid"
| "getFileType_loop magic memBuffer (reader # rest) =
     (case getFileType reader magic memBuffer of
        Inl err \<Rightarrow> Inl err
      | Inr fileType \<Rightarrow>
          if fileType \<noteq> Invalid then Inr fileType
          else getFileType_loop magic memBuffer rest)"

definition Registry_getFileType ::
  "(string \<Rightarrow> 'm) \<Rightarrow> ('m, 'fl, 'ar) Registry \<Rightarrow> MemoryBuffer \<Rightarrow> Error + FileType" where
  "Registry_getFileType identify_magic reg memBuffer =
     (let data = Buffer memBuffer;
          magic = identify_magic data
      in getFileType_loop magic memBuffer (readers reg))"

fun readFile_loop ::
  "'m \<Rightarrow> MemoryBuffer \<Rightarrow> 'fl \<Rightarrow> 'ar \<Rightarrow> ('m, 'fl, 'ar) Reader list \<Rightarrow> Error + File" where
  "readFile_loop fileType memBuffer readFlags arches [] = Inl unsupported_file_type"
| "readFile_loop fileType memBuffer readFlags arches (reader # rest) =
     (if \<not> canRead reader fileType memBuffer FileType_All
      then readFile_loop fileType memBuffer readFlags arches rest
      else readFile reader memBuffer readFlags arches)"

definition Registry_readFile ::
  "(string \<Rightarrow> 'm) \<Rightarrow> ('m, 'fl, 'ar) Registry \<Rightarrow> MemoryBuffer \<Rightarrow> 'fl \<Rightarrow> 'ar \<Rightarrow> Error + File" where
  "Registry_readFile identify_magic reg memBuffer readFlags arches =
     (let data = Buffer memBuffer;
          fileType = identify_magic data
      in readFile_loop fileType memBuffer readFlags arches (readers reg))"

subsection \<open>The write path\<close>

fun canWrite_loop :: "File \<Rightarrow> Writer list \<Rightarrow> bool" where
  "canWrite_loop file [] = False"
| "canWrite_loop file (writer # rest) =
     (if canWrite writer file then True else canWrite_loop file rest)"

definition Registry_canWrite :: "('m, 'fl, 'ar) Registry \<Rightarrow> File \<Rightarrow> bool" where
  "Registry_canWrite reg file = canWrite_loop file (writers reg)"

fun writeFile_loop :: "raw_ostream \<Rightarrow> File \<Rightarrow> Writer list \<Rightarrow> Error option \<times> raw_ostream" where
  "writeFile_loop os file [] = (Some unsupported_file_type, os)"
| "writeFile_loop os file (writer # rest) =
     (if \<not> canWrite writer file then writeFile_loop os file rest
      else writeFile writer os file)"

definition Registry_writeFile ::
  "('m, 'fl, 'ar) Registry \<Rightarrow> raw_ostream \<Rightarrow> File \<Rightarrow> Error option \<times> raw_ostream" where
  "Registry_writeFile reg os file = writeFile_loop os file (writers reg)"

text \<open>
  The convenience overload works on a file. \<^verbatim>\<open>llvm::raw_fd_ostream\<close> belongs to LLVM;
  what the function relies on is modelled as follows. The file system holds the content
  of each file and says which calls fail. A \<^verbatim>\<open>raw_fd_ostream\<close> is a \<^verbatim>\<open>raw_ostream\<close>
  together with the file it has open (\<open>None\<close> is \<^verbatim>\<open>FD = -1\<close>); the bytes written to it
  stay in the stream until it is flushed.
\<close>

record filesystem =
  files :: "string \<rightharpoonup> string"
  open_failure :: "string \<Rightarrow> error_code"
  write_failure :: "string \<Rightarrow> error_code"

record raw_fd_ostream =
  stream :: raw_ostream
  FD :: "string option"

text \<open>
  The constructor opens \<^verbatim>\<open>Filename\<close> for writing, which creates the file or truncates
  it, and reports the outcome of the open through its reference parameter \<^verbatim>\<open>EC\<close>; this
  is the only time it assigns to \<^verbatim>\<open>EC\<close>, the stream keeps no reference to it.
\<close>

definition raw_fd_ostream_open ::
  "string \<Rightarrow> filesystem \<Rightarrow> raw_fd_ostream \<times> error_code \<times> filesystem" where
  "raw_fd_ostream_open Filename fs =
     (case open_failure fs Filename of
        Some c \<Rightarrow> (\<lparr>stream = \<lparr>written = [], stream_error = None\<rparr>, FD = None\<rparr>, Some c, fs)
      | None \<Rightarrow> (\<lparr>stream = \<lparr>written = [], stream_error = None\<rparr>, FD = Some Filename\<rparr>, None,
                 fs\<lparr>files := (files fs)(Filename \<mapsto> [])\<rparr>))"

text \<open>
  \<^verbatim>\<open>flush()\<close> does nothing when no byte is waiting. Otherwise the bytes go to the file;
  when that write fails the failure is recorded in the stream's own error state
  (\<^verbatim>\<open>error_detected\<close>). Closing the descriptor itself is taken to succeed.
\<close>

definition raw_fd_ostream_flush ::
  "raw_fd_ostream \<Rightarrow> filesystem \<Rightarrow> raw_fd_ostream \<times> filesystem" where
  "raw_fd_ostream_flush os fs =
     (case FD os of
        None \<Rightarrow> (os, fs)
      | Some Filename \<Rightarrow>
          if written (stream os) = [] then (os, fs)
          else (case write_failure fs Filename of
                  Some c \<Rightarrow> (os\<lparr>stream := (stream os)\<lparr>stream_error := Some c\<rparr>\<rparr>, fs)
                | None \<Rightarrow> (os, fs\<lparr>files := (files fs)(Filename \<mapsto> written (stream os))\<rparr>)))"

text \<open>\<^verbatim>\<open>close()\<close> takes no argument: it flushes, closes the descriptor and sets \<^verbatim>\<open>FD = -1\<close>.\<close>

definition raw_fd_ostream_close ::
  "raw_fd_ostream \<Rightarrow> filesystem \<Rightarrow> raw_fd_ostream \<times> filesystem" where
  "raw_fd_ostream_close os fs =
     (case raw_fd_ostream_flush os fs of (os', fs') \<Rightarrow> (os'\<lparr>FD := None\<rparr>, fs'))"

text \<open>
  The destructor flushes and closes a stream that is still open. Then, when the stream
  holds an error that nobody cleared, it calls \<^verbatim>\<open>report_fatal_error\<close>, which ends the
  process. The first component says whether the destructor completes.
\<close>

definition raw_fd_ostream_destructor ::
  "raw_fd_ostream \<Rightarrow> filesystem \<Rightarrow> bool \<times> raw_fd_ostream \<times> filesystem" where
  "raw_fd_ostream_destructor os fs =
     (case (if FD os \<noteq> None then raw_fd_ostream_close os fs else (os, fs)) of
        (os', fs') \<Rightarrow> (stream_error (stream os') = None, os', fs'))"

text \<open>
  What the caller of a function observes: the function returns an \<^verbatim>\<open>Error\<close>
  (\<open>None\<close> is success), or the process is ended by \<^verbatim>\<open>report_fatal_error\<close>.
\<close>

datatype call_result = Returned "Error option" | Fatal_error

text \<open>
  A \<^verbatim>\<open>return\<close> statement of \<^verbatim>\<open>Registry::writeFile(const File *)\<close>: the value is built,
  then the local \<^verbatim>\<open>os\<close> is destroyed, and only then does the caller get the value.
\<close>

definition return_from_writeFile ::
  "Error option \<Rightarrow> raw_fd_ostream \<Rightarrow> filesystem \<Rightarrow> call_result \<times> raw_ostream \<times> filesystem" where
  "return_from_writeFile result os fs =
     (case raw_fd_ostream_destructor os fs of
        (completes, os', fs') \<Rightarrow>
          (if completes then Returned result else Fatal_error, stream os', fs'))"

text \<open>
  \<^verbatim>\<open>Registry::writeFile(const File *)\<close>. The result is what the caller observes, the
  stream as the destructor leaves it, and the file system. The writer works on \<^verbatim>\<open>os\<close>
  through a \<^verbatim>\<open>raw_ostream\<close> reference. The local \<^verbatim>\<open>ec\<close> is tested twice, as in the
  source; nothing between the two tests assigns to it.
\<close>

definition Registry_writeFile_path ::
  "('m, 'fl, 'ar) Registry \<Rightarrow> File \<Rightarrow> filesystem \<Rightarrow> call_result \<times> raw_ostream \<times> filesystem" where
  "Registry_writeFile_path reg file fs =
     (case raw_fd_ostream_open (Path file) fs of
        (os, ec, fs1) \<Rightarrow>
          if ec \<noteq> None then return_from_writeFile (errorCodeToError ec) os fs1
          else (case Registry_writeFile reg (stream os) file of
                  (error, s1) \<Rightarrow>
                    if error \<noteq> None then return_from_writeFile error (os\<lparr>stream := s1\<rparr>) fs1
                    else (case raw_fd_ostream_close (os\<lparr>stream := s1\<rparr>) fs1 of
                            (os2, fs2) \<Rightarrow>
                              if ec \<noteq> None
                              then return_from_writeFile (errorCodeToError ec) os2 fs2
                              else return_from_writeFile None os2 fs2)))"

subsection \<open>Registration\<close>

text \<open>
  Modelled from the spec: \<^verbatim>\<open>Registry::add\<close> and the \<^verbatim>\<open>add\<close> of the YAML reader and
  writer are declared in headers that are not among the sources. The spec makes each list
  ordered by registration, so \<^verbatim>\<open>add\<close> appends.
\<close>

definition Registry_add_Reader ::
  "('m, 'fl, 'ar) Registry \<Rightarrow> ('m, 'fl, 'ar) Reader \<Rightarrow> ('m, 'fl, 'ar) Registry" where
  "Registry_add_Reader reg reader = reg\<lparr>readers := readers reg @ [reader]\<rparr>"

definition Registry_add_Writer ::
  "('m, 'fl, 'ar) Registry \<Rightarrow> Writer \<Rightarrow> ('m, 'fl, 'ar) Registry" where
  "Registry_add_Writer reg writer = reg\<lparr>writers := writers reg @ [writer]\<rparr>"

text \<open>The four document handler classes the source instantiates.\<close>

datatype DocumentHandler =
    stub_v1_YAMLDocumentHandler
  | stub_v2_YAMLDocumentHandler
  | api_v1_YAMLDocumentHandler
  | configuration_v1_YAMLDocumentHandler

definition YAML_add :: "DocumentHandler list \<Rightarrow> DocumentHandler \<Rightarrow> DocumentHandler list" where
  "YAML_add handlers handler = handlers @ [handler]"

text \<open>
  The classes \<^verbatim>\<open>MachODylibReader\<close>, \<^verbatim>\<open>YAMLReader\<close>, \<^verbatim>\<open>YAMLWriter\<close> and
  \<^verbatim>\<open>ReexportFileWriter\<close> are not among the sources. Each helper takes the class as a
  parameter: the object, or for the YAML classes the object as a function of the document
  handlers added to it.
\<close>

definition addBinaryReaders ::
  "('m, 'fl, 'ar) Reader \<Rightarrow> ('m, 'fl, 'ar) Registry \<Rightarrow> ('m, 'fl, 'ar) Registry" where
  "addBinaryReaders MachODylibReader reg = Registry_add_Reader reg MachODylibReader"

definition addYAMLReaders ::
  "(DocumentHandler list \<Rightarrow> ('m, 'fl, 'ar) Reader) \<Rightarrow> ('m, 'fl, 'ar) Registry
     \<Rightarrow> ('m, 'fl, 'ar) Registry" where
  "addYAMLReaders YAMLReader reg =
     (let reader0 = [];
          reader1 = YAML_add reader0 stub_v1_YAMLDocumentHandler;
          reader2 = YAML_add reader1 stub_v2_YAMLDocumentHandler;
          reader3 = YAML_add reader2 api_v1_YAMLDocumentHandler;
          reader4 = YAML_add reader3 configuration_v1_YAMLDocumentHandler
      in Registry_add_Reader reg (YAMLReader reader4))"

definition addYAMLWriters ::
  "(DocumentHandler list \<Rightarrow> Writer) \<Rightarrow> ('m, 'fl, 'ar) Registry \<Rightarrow> ('m, 'fl, 'ar) Registry" where
  "addYAMLWriters YAMLWriter reg =
     (let writer0 = [];
          writer1 = YAML_add writer0 stub_v1_YAMLDocumentHandler;
          writer2 = YAML_add writer1 stub_v2_YAMLDocumentHandler;
          writer3 = YAML_add writer2 api_v1_YAMLDocumentHandler
      in Registry_add_Writer reg (YAMLWriter writer3))"

definition addReexportWriters ::
  "Writer \<Rightarrow> ('m, 'fl, 'ar) Registry \<Rightarrow> ('m, 'fl, 'ar) Registry" where
  "addReexportWriters ReexportFileWriter reg = Registry_add_Writer reg ReexportFileWriter"

subsection \<open>Readers, writers and inputs of the worked examples\<close>

text \<open>
  A sniffer that tells a YAML document (kind 1) and a Mach-O image (kind 2) from anything
  else (kind 0), and stub readers and writers of the kind a test registers.
\<close>

definition sniff :: "string \<Rightarrow> nat" where
  "sniff data =
     (if take 3 data = ''---'' then 1 else if take 4 data = ''MH64'' then 2 else 0)"

definition stub_reader :: "nat \<Rightarrow> FileType \<Rightarrow> string \<Rightarrow> (nat, nat, nat) Reader" where
  "stub_reader kind t name =
     \<lparr>canRead = (\<lambda>magic memBuffer types. magic = kind \<and> t \<in> types),
      getFileType = (\<lambda>magic memBuffer. if magic = kind then Inr t else Inr Invalid),
      readFile = (\<lambda>memBuffer readFlags arches.
                    Inr \<lparr>Path = BufferIdentifier memBuffer, Type = t, InstallName = name\<rparr>)\<rparr>"

definition corrupt_reader :: "(nat, nat, nat) Reader" where
  "corrupt_reader =
     \<lparr>canRead = (\<lambda>magic memBuffer types. magic = 1),
      getFileType = (\<lambda>magic memBuffer.
                       if magic = 1 then Inl (ErrorInfo ''malformed document'') else Inr Invalid),
      readFile = (\<lambda>memBuffer readFlags arches. Inl (ErrorInfo ''malformed document''))\<rparr>"

definition stub_writer :: "FileType \<Rightarrow> string \<Rightarrow> Writer" where
  "stub_writer t text =
     \<lparr>canWrite = (\<lambda>file. Type file = t),
      writeFile = (\<lambda>os file. (None, os\<lparr>written := written os @ text\<rparr>))\<rparr>"

definition failing_writer :: "FileType \<Rightarrow> Writer" where
  "failing_writer t =
     \<lparr>canWrite = (\<lambda>file. Type file = t),
      writeFile = (\<lambda>os file. (Some (ErrorInfo ''cannot encode''), os))\<rparr>"

definition yaml_buffer :: MemoryBuffer where
  "yaml_buffer = \<lparr>Buffer = ''--- !tapi-tbd-v2'', BufferIdentifier = ''libFoo.tbd''\<rparr>"

definition random_buffer :: MemoryBuffer where
  "random_buffer = \<lparr>Buffer = ''q7#x'', BufferIdentifier = ''noise.bin''\<rparr>"

definition foo_file :: "FileType \<Rightarrow> File" where
  "foo_file t = \<lparr>Path = ''out/libFoo.tbd'', Type = t, InstallName = ''/usr/lib/libFoo.dylib''\<rparr>"

definition empty_stream :: raw_ostream where
  "empty_stream = \<lparr>written = [], stream_error = None\<rparr>"

definition disk :: "error_code \<Rightarrow> filesystem" where
  "disk write_result =
     \<lparr>files = [''out/libFoo.tbd'' \<mapsto> ''old content''],
      open_failure = (\<lambda>path. if path = ''readonly/libFoo.tbd'' then Some permission_denied else None),
      write_failure = (\<lambda>path. write_result)\<rparr>"

definition example_registry :: "(nat, nat, nat) Registry" where
  "example_registry =
     \<lparr>readers = [stub_reader 2 BinaryDylib ''bin'', corrupt_reader, stub_reader 1 TBD_v2 ''foo''],
      writers = [stub_writer TBD_v1 ''v1'', failing_writer TBD_v2, stub_writer TBD_v2 ''v2'']\<rparr>"

section \<open>Properties of the dispatch loops\<close>

lemma canRead_loop_iff:
  "canRead_loop magic memBuffer types rs \<longleftrightarrow> (\<exists>r\<in>set rs. canRead r magic memBuffer types)"
  by (induction rs) auto

lemma canWrite_loop_iff:
  "canWrite_loop file ws \<longleftrightarrow> (\<exists>w\<in>set ws. canWrite w file)"
  by (induction ws) auto

lemma readFile_loop_skip:
  "\<forall>q\<in>set pre. \<not> canRead q magic memBuffer FileType_All \<Longrightarrow>
     readFile_loop magic memBuffer readFlags arches (pre @ rs) =
     readFile_loop magic memBuffer readFlags arches rs"
  by (induction pre) auto

lemma writeFile_loop_skip:
  "\<forall>q\<in>set pre. \<not> canWrite q file \<Longrightarrow>
     writeFile_loop os file (pre @ ws) = writeFile_loop os file ws"
  by (induction pre) auto

lemma getFileType_loop_skip:
  "\<forall>q\<in>set pre. getFileType q magic memBuffer = Inr Invalid \<Longrightarrow>
     getFileType_loop magic memBuffer (pre @ rs) = getFileType_loop magic memBuffer rs"
  by (induction pre) auto

lemma getFileType_loop_stop:
  "getFileType r magic memBuffer \<noteq> Inr Invalid \<Longrightarrow>
     getFileType_loop magic memBuffer (r # rs) = getFileType r magic memBuffer"
  by (auto split: sum.splits)

lemma readFile_loop_find:
  "readFile_loop magic memBuffer readFlags arches rs =
     (case find (\<lambda>r. canRead r magic memBuffer FileType_All) rs of
        None \<Rightarrow> Inl unsupported_file_type
      | Some r \<Rightarrow> readFile r memBuffer readFlags arches)"
  by (induction rs) auto

lemma writeFile_loop_find:
  "writeFile_loop os file ws =
     (case find (\<lambda>w. canWrite w file) ws of
        None \<Rightarrow> (Some unsupported_file_type, os)
      | Some w \<Rightarrow> writeFile w os file)"
  by (induction ws) auto

lemma getFileType_loop_find:
  "getFileType_loop magic memBuffer rs =
     (case find (\<lambda>r. getFileType r magic memBuffer \<noteq> Inr Invalid) rs of
        None \<Rightarrow> Inr Invalid
      | Some r \<Rightarrow> getFileType r magic memBuffer)"
  by (induction rs) (auto split: sum.splits)

lemma getFileType_loop_error_origin:
  "getFileType_loop magic memBuffer rs = Inl err \<Longrightarrow>
     \<exists>r\<in>set rs. getFileType r magic memBuffer = Inl err"
  by (induction rs) (auto split: sum.splits if_splits)

section \<open>The read path\<close>

text \<open>
  C6. \<^verbatim>\<open>Registry::canRead(buffer, types)\<close> is true exactly when at least one registered
  reader accepts the sniffed magic together with the buffer under the same restriction
  \<^verbatim>\<open>types\<close>.
\<close>

theorem canRead_iff_some_reader_accepts:
  "Registry_canRead identify_magic reg memBuffer types \<longleftrightarrow>
     (\<exists>r\<in>set (readers reg). canRead r (identify_magic (Buffer memBuffer)) memBuffer types)"
  by (simp add: Registry_canRead_def canRead_loop_iff)

theorem canRead_iff_some_reader_accepts_witness:
  "Registry_canRead sniff
       \<lparr>readers = [stub_reader 1 Configuration_v1 ''conf'', stub_reader 1 TBD_v2 ''foo''],
        writers = []\<rparr>
       yaml_buffer {TBD_v1, TBD_v2}
   \<and> \<not> Registry_canRead sniff
       \<lparr>readers = [stub_reader 1 Configuration_v1 ''conf'', stub_reader 1 TBD_v2 ''foo''],
        writers = []\<rparr>
       yaml_buffer {TBD_v1, API_v1}
   \<and> (\<exists>r\<in>set [stub_reader 1 Configuration_v1 ''conf'', stub_reader 1 TBD_v2 ''foo''].
         canRead r (sniff (Buffer yaml_buffer)) yaml_buffer {TBD_v1, TBD_v2})"
  using canRead_iff_some_reader_accepts
    [of sniff "\<lparr>readers = [stub_reader 1 Configuration_v1 ''conf'', stub_reader 1 TBD_v2 ''foo''],
                 writers = []\<rparr>"
        yaml_buffer "{TBD_v1, TBD_v2}"]
    canRead_iff_some_reader_accepts
    [of sniff "\<lparr>readers = [stub_reader 1 Configuration_v1 ''conf'', stub_reader 1 TBD_v2 ''foo''],
                 writers = []\<rparr>"
        yaml_buffer "{TBD_v1, API_v1}"]
  by (simp add: stub_reader_def sniff_def yaml_buffer_def)

text \<open>
  C4. \<^verbatim>\<open>Registry::getFileType\<close> asks the readers in registration order. The readers
  before the first one whose answer is not \<^verbatim>\<open>Invalid\<close> are passed over; the answer of
  that reader, a file type or an error, is the result, whatever is registered after it.
  When every reader answers \<^verbatim>\<open>Invalid\<close> the result is \<^verbatim>\<open>Invalid\<close>.
\<close>

theorem getFileType_first_answer:
  "(readers reg = pre @ r # post
      \<and> (\<forall>q\<in>set pre. getFileType q (identify_magic (Buffer memBuffer)) memBuffer = Inr Invalid)
      \<and> getFileType r (identify_magic (Buffer memBuffer)) memBuffer \<noteq> Inr Invalid
    \<longrightarrow> Registry_getFileType identify_magic reg memBuffer
          = getFileType r (identify_magic (Buffer memBuffer)) memBuffer
        \<and> Registry_getFileType identify_magic (reg\<lparr>readers := pre @ r # post'\<rparr>) memBuffer
          = Registry_getFileType identify_magic reg memBuffer)
   \<and> ((\<forall>q\<in>set (readers reg).
          getFileType q (identify_magic (Buffer memBuffer)) memBuffer = Inr Invalid)
    \<longrightarrow> Registry_getFileType identify_magic reg memBuffer = Inr Invalid)"
proof (intro conjI impI)
  assume a: "readers reg = pre @ r # post
      \<and> (\<forall>q\<in>set pre. getFileType q (identify_magic (Buffer memBuffer)) memBuffer = Inr Invalid)
      \<and> getFileType r (identify_magic (Buffer memBuffer)) memBuffer \<noteq> Inr Invalid"
  then show "Registry_getFileType identify_magic reg memBuffer
          = getFileType r (identify_magic (Buffer memBuffer)) memBuffer"
    by (simp add: Registry_getFileType_def getFileType_loop_skip getFileType_loop_stop
          del: getFileType_loop.simps)
  from a show "Registry_getFileType identify_magic (reg\<lparr>readers := pre @ r # post'\<rparr>) memBuffer
          = Registry_getFileType identify_magic reg memBuffer"
    by (simp add: Registry_getFileType_def getFileType_loop_skip getFileType_loop_stop
          del: getFileType_loop.simps)
next
  assume a: "\<forall>q\<in>set (readers reg).
          getFileType q (identify_magic (Buffer memBuffer)) memBuffer = Inr Invalid"
  from getFileType_loop_skip [OF a, of "[]"]
  show "Registry_getFileType identify_magic reg memBuffer = Inr Invalid"
    by (simp add: Registry_getFileType_def)
qed

theorem getFileType_first_answer_witness:
  "Registry_getFileType sniff
      \<lparr>readers = [stub_reader 2 BinaryDylib ''bin'', stub_reader 1 TBD_v2 ''foo'', corrupt_reader],
       writers = []\<rparr> yaml_buffer = Inr TBD_v2
   \<and> Registry_getFileType sniff
      \<lparr>readers = [stub_reader 2 BinaryDylib ''bin'', corrupt_reader, stub_reader 1 TBD_v2 ''foo''],
       writers = []\<rparr> yaml_buffer = Inl (ErrorInfo ''malformed document'')
   \<and> Registry_getFileType sniff
      \<lparr>readers = [stub_reader 2 BinaryDylib ''bin'', corrupt_reader, stub_reader 1 TBD_v2 ''foo''],
       writers = []\<rparr> random_buffer = Inr Invalid"
  using getFileType_first_answer
    [of "\<lparr>readers = [stub_reader 2 BinaryDylib ''bin'', stub_reader 1 TBD_v2 ''foo'', corrupt_reader],
           writers = []\<rparr>"
        "[stub_reader 2 BinaryDylib ''bin'']" "stub_reader 1 TBD_v2 ''foo''" "[corrupt_reader]"
        sniff yaml_buffer "[corrupt_reader]"]
    getFileType_first_answer
    [of "\<lparr>readers = [stub_reader 2 BinaryDylib ''bin'', corrupt_reader, stub_reader 1 TBD_v2 ''foo''],
           writers = []\<rparr>"
        "[stub_reader 2 BinaryDylib ''bin'']" corrupt_reader "[stub_reader 1 TBD_v2 ''foo'']"
        sniff yaml_buffer "[]"]
    getFileType_first_answer
    [of "\<lparr>readers = [stub_reader 2 BinaryDylib ''bin'', corrupt_reader, stub_reader 1 TBD_v2 ''foo''],
           writers = []\<rparr>"
        "[]" corrupt_reader "[]" sniff random_buffer "[]"]
  by (simp add: stub_reader_def corrupt_reader_def sniff_def yaml_buffer_def random_buffer_def)

text \<open>
  C3. \<^verbatim>\<open>Registry::readFile\<close> sniffs the buffer and hands the whole parse to the first
  reader, in registration order, whose \<^verbatim>\<open>canRead\<close> accepts the sniffed kind. The result
  is that reader's result, a file or an error, and it is the same whatever readers are
  registered after it: none of them is consulted.
\<close>

theorem readFile_first_accepting_reader:
  assumes "readers reg = pre @ r # post"
    and "\<forall>q\<in>set pre. \<not> canRead q (identify_magic (Buffer memBuffer)) memBuffer FileType_All"
    and "canRead r (identify_magic (Buffer memBuffer)) memBuffer FileType_All"
  shows "Registry_readFile identify_magic reg memBuffer readFlags arches
           = readFile r memBuffer readFlags arches
         \<and> Registry_readFile identify_magic (reg\<lparr>readers := pre @ r # post'\<rparr>) memBuffer
             readFlags arches
           = readFile r memBuffer readFlags arches"
  using assms by (simp add: Registry_readFile_def readFile_loop_skip)

theorem readFile_first_accepting_reader_witness:
  "Registry_readFile sniff
      \<lparr>readers = [stub_reader 2 BinaryDylib ''bin'', corrupt_reader, stub_reader 1 TBD_v2 ''foo''],
       writers = []\<rparr> yaml_buffer (0::nat) (0::nat)
     = Inl (ErrorInfo ''malformed document'')
   \<and> Registry_readFile sniff
      \<lparr>readers = [stub_reader 2 BinaryDylib ''bin'', corrupt_reader], writers = []\<rparr>
      yaml_buffer (0::nat) (0::nat)
     = Inl (ErrorInfo ''malformed document'')"
proof -
  have h1: "readers \<lparr>readers = [stub_reader 2 BinaryDylib ''bin'', corrupt_reader,
                                 stub_reader 1 TBD_v2 ''foo''], writers = []\<rparr>
              = [stub_reader 2 BinaryDylib ''bin''] @ corrupt_reader # [stub_reader 1 TBD_v2 ''foo'']"
    by simp
  have h2: "\<forall>q\<in>set [stub_reader 2 BinaryDylib ''bin''].
              \<not> canRead q (sniff (Buffer yaml_buffer)) yaml_buffer FileType_All"
    by (simp add: stub_reader_def sniff_def yaml_buffer_def)
  have h3: "canRead corrupt_reader (sniff (Buffer yaml_buffer)) yaml_buffer FileType_All"
    by (simp add: corrupt_reader_def sniff_def yaml_buffer_def)
  from readFile_first_accepting_reader
    [where identify_magic = sniff and memBuffer = yaml_buffer and readFlags = 0 and arches = 0
       and post' = "[]", OF h1 h2 h3]
  show ?thesis by (simp add: corrupt_reader_def)
qed

text \<open>
  Two readers that both accept the buffer: the one registered first handles it.
\<close>

lemma readFile_registration_order_decides:
  "Registry_readFile sniff
      \<lparr>readers = [stub_reader 1 TBD_v2 ''first'', stub_reader 1 TBD_v2 ''second''], writers = []\<rparr>
      yaml_buffer (0::nat) (0::nat)
     = Inr \<lparr>Path = ''libFoo.tbd'', Type = TBD_v2, InstallName = ''first''\<rparr>
   \<and> Registry_readFile sniff
      \<lparr>readers = [stub_reader 1 TBD_v2 ''second'', stub_reader 1 TBD_v2 ''first''], writers = []\<rparr>
      yaml_buffer (0::nat) (0::nat)
     = Inr \<lparr>Path = ''libFoo.tbd'', Type = TBD_v2, InstallName = ''second''\<rparr>"
  by (simp add: Registry_readFile_def stub_reader_def sniff_def yaml_buffer_def FileType_All_def)

text \<open>
  C5. When no registered reader accepts the sniffed kind and content of a buffer,
  \<^verbatim>\<open>Registry::readFile\<close> fails with the error "unsupported file type" and
  \<^verbatim>\<open>Registry::canRead\<close> answers false.
\<close>

theorem unsupported_input_rejected:
  assumes "\<forall>r\<in>set (readers reg).
             \<not> canRead r (identify_magic (Buffer memBuffer)) memBuffer FileType_All"
  shows "Registry_readFile identify_magic reg memBuffer readFlags arches
           = Inl unsupported_file_type
         \<and> \<not> Registry_canRead identify_magic reg memBuffer FileType_All"
proof
  from readFile_loop_skip [OF assms, of readFlags arches "[]"]
  show "Registry_readFile identify_magic reg memBuffer readFlags arches
           = Inl unsupported_file_type"
    by (simp add: Registry_readFile_def)
  from assms show "\<not> Registry_canRead identify_magic reg memBuffer FileType_All"
    by (simp add: Registry_canRead_def canRead_loop_iff)
qed

theorem unsupported_input_rejected_witness:
  "Registry_readFile sniff
      \<lparr>readers = [stub_reader 2 BinaryDylib ''bin'', corrupt_reader, stub_reader 1 TBD_v2 ''foo''],
       writers = []\<rparr> random_buffer (0::nat) (0::nat)
     = Inl (StringError ''unsupported file type'' not_supported)
   \<and> \<not> Registry_canRead sniff
      \<lparr>readers = [stub_reader 2 BinaryDylib ''bin'', corrupt_reader, stub_reader 1 TBD_v2 ''foo''],
       writers = []\<rparr> random_buffer FileType_All"
proof -
  have h: "\<forall>r\<in>set (readers \<lparr>readers = [stub_reader 2 BinaryDylib ''bin'', corrupt_reader,
                                        stub_reader 1 TBD_v2 ''foo''], writers = []\<rparr>).
             \<not> canRead r (sniff (Buffer random_buffer)) random_buffer FileType_All"
    by (simp add: stub_reader_def corrupt_reader_def sniff_def random_buffer_def)
  from unsupported_input_rejected
    [where identify_magic = sniff and memBuffer = random_buffer and readFlags = 0 and arches = 0,
     OF h]
  show ?thesis by (simp add: unsupported_file_type_def)
qed

text \<open>
  C8. With an unchanged reader list, \<^verbatim>\<open>Registry::getFileType\<close> gives the same result on
  the same buffer: the result is determined by the sniffer, the buffer and the reader list.
  Whatever else happens to the registry between two calls, such as registering a writer,
  does not change it.
\<close>

theorem getFileType_depends_on_readers_only:
  "readers reg = readers reg' \<Longrightarrow>
     Registry_getFileType identify_magic reg memBuffer
       = Registry_getFileType identify_magic reg' memBuffer"
  by (simp add: Registry_getFileType_def)

theorem getFileType_depends_on_readers_only_witness:
  "readers example_registry
     = readers (Registry_add_Writer example_registry (stub_writer API_v1 ''api''))
   \<and> Registry_getFileType sniff example_registry yaml_buffer
     = Registry_getFileType sniff
         (Registry_add_Writer example_registry (stub_writer API_v1 ''api'')) yaml_buffer
   \<and> Registry_getFileType sniff example_registry yaml_buffer
     = Inl (ErrorInfo ''malformed document'')"
proof -
  have h: "readers example_registry
     = readers (Registry_add_Writer example_registry (stub_writer API_v1 ''api''))"
    by (simp add: Registry_add_Writer_def)
  have "Registry_getFileType sniff example_registry yaml_buffer
     = Inl (ErrorInfo ''malformed document'')"
    by (simp add: Registry_getFileType_def example_registry_def stub_reader_def
          corrupt_reader_def sniff_def yaml_buffer_def)
  with h getFileType_depends_on_readers_only [OF h, of sniff yaml_buffer]
  show ?thesis by simp
qed

section \<open>The write path\<close>

text \<open>
  C7. \<^verbatim>\<open>Registry::canWrite\<close> is true exactly when some registered writer accepts the
  file. \<^verbatim>\<open>Registry::writeFile(stream, file)\<close> delegates to the first writer, in
  registration order, whose \<^verbatim>\<open>canWrite\<close> accepts the file, and fails with the error
  "unsupported file type" when no writer accepts it.
\<close>

theorem write_dispatch_first_accepting_writer:
  "(Registry_canWrite reg file \<longleftrightarrow> (\<exists>q\<in>set (writers reg). canWrite q file))
   \<and> (writers reg = pre @ w # post \<and> (\<forall>q\<in>set pre. \<not> canWrite q file) \<and> canWrite w file
    \<longrightarrow> Registry_writeFile reg os file = writeFile w os file)
   \<and> ((\<forall>q\<in>set (writers reg). \<not> canWrite q file)
    \<longrightarrow> Registry_writeFile reg os file = (Some unsupported_file_type, os))"
proof (intro conjI impI)
  show "Registry_canWrite reg file \<longleftrightarrow> (\<exists>q\<in>set (writers reg). canWrite q file)"
    by (simp add: Registry_canWrite_def canWrite_loop_iff)
next
  assume "writers reg = pre @ w # post \<and> (\<forall>q\<in>set pre. \<not> canWrite q file) \<and> canWrite w file"
  then show "Registry_writeFile reg os file = writeFile w os file"
    by (simp add: Registry_writeFile_def writeFile_loop_skip)
next
  assume a: "\<forall>q\<in>set (writers reg). \<not> canWrite q file"
  from writeFile_loop_skip [OF a, of os "[]"]
  show "Registry_writeFile reg os file = (Some unsupported_file_type, os)"
    by (simp add: Registry_writeFile_def)
qed

theorem write_dispatch_first_accepting_writer_witness:
  "Registry_canWrite example_registry (foo_file TBD_v1)
   \<and> Registry_writeFile example_registry empty_stream (foo_file TBD_v1)
       = (None, \<lparr>written = ''v1'', stream_error = None\<rparr>)
   \<and> Registry_writeFile example_registry empty_stream (foo_file TBD_v2)
       = (Some (ErrorInfo ''cannot encode''), empty_stream)
   \<and> \<not> Registry_canWrite example_registry (foo_file Configuration_v1)
   \<and> Registry_writeFile example_registry empty_stream (foo_file Configuration_v1)
       = (Some (StringError ''unsupported file type'' not_supported), empty_stream)"
  using write_dispatch_first_accepting_writer
    [of example_registry "foo_file TBD_v1" "[]" "stub_writer TBD_v1 ''v1''"
        "[failing_writer TBD_v2, stub_writer TBD_v2 ''v2'']" empty_stream]
    write_dispatch_first_accepting_writer
    [of example_registry "foo_file TBD_v2" "[stub_writer TBD_v1 ''v1'']" "failing_writer TBD_v2"
        "[stub_writer TBD_v2 ''v2'']" empty_stream]
    write_dispatch_first_accepting_writer
    [of example_registry "foo_file Configuration_v1" "[]" "stub_writer TBD_v1 ''v1''" "[]"
        empty_stream]
  by (simp add: example_registry_def stub_writer_def failing_writer_def foo_file_def
        empty_stream_def unsupported_file_type_def)

section \<open>Errors\<close>

text \<open>
  C2. An error of a component is returned unchanged: the error of the reader at which
  \<^verbatim>\<open>getFileType\<close> stops, the error of the reader that \<^verbatim>\<open>readFile\<close> chose, the error of
  the writer that \<^verbatim>\<open>writeFile\<close> chose (with the stream as that writer left it). Every
  error \<^verbatim>\<open>getFileType\<close> returns is the error of a registered reader. As soon as some
  reader (some writer) accepts the input, the result of \<^verbatim>\<open>readFile\<close> (of
  \<^verbatim>\<open>writeFile\<close>) is the result of an accepting component, so the registry's own
  "unsupported file type" is produced only when no component accepted.
\<close>

theorem registry_returns_component_errors_unchanged:
  "(find (\<lambda>q. getFileType q (identify_magic (Buffer memBuffer)) memBuffer \<noteq> Inr Invalid)
        (readers reg) = Some r
      \<and> getFileType r (identify_magic (Buffer memBuffer)) memBuffer = Inl err
    \<longrightarrow> Registry_getFileType identify_magic reg memBuffer = Inl err)
   \<and> (find (\<lambda>q. canRead q (identify_magic (Buffer memBuffer)) memBuffer FileType_All)
        (readers reg) = Some r
      \<and> readFile r memBuffer readFlags arches = Inl err
    \<longrightarrow> Registry_readFile identify_magic reg memBuffer readFlags arches = Inl err)
   \<and> (find (\<lambda>q. canWrite q file) (writers reg) = Some w
      \<and> writeFile w os file = (Some err, os')
    \<longrightarrow> Registry_writeFile reg os file = (Some err, os'))
   \<and> (Registry_getFileType identify_magic reg memBuffer = Inl err
    \<longrightarrow> (\<exists>q\<in>set (readers reg).
           getFileType q (identify_magic (Buffer memBuffer)) memBuffer = Inl err))
   \<and> ((\<exists>q\<in>set (readers reg).
          canRead q (identify_magic (Buffer memBuffer)) memBuffer FileType_All)
    \<longrightarrow> (\<exists>q\<in>set (readers reg).
           canRead q (identify_magic (Buffer memBuffer)) memBuffer FileType_All
           \<and> Registry_readFile identify_magic reg memBuffer readFlags arches
               = readFile q memBuffer readFlags arches))
   \<and> ((\<exists>q\<in>set (writers reg). canWrite q file)
    \<longrightarrow> (\<exists>q\<in>set (writers reg).
           canWrite q file \<and> Registry_writeFile reg os file = writeFile q os file))"
proof (intro conjI impI)
  assume "find (\<lambda>q. getFileType q (identify_magic (Buffer memBuffer)) memBuffer \<noteq> Inr Invalid)
        (readers reg) = Some r
      \<and> getFileType r (identify_magic (Buffer memBuffer)) memBuffer = Inl err"
  then show "Registry_getFileType identify_magic reg memBuffer = Inl err"
    by (simp add: Registry_getFileType_def getFileType_loop_find)
next
  assume "find (\<lambda>q. canRead q (identify_magic (Buffer memBuffer)) memBuffer FileType_All)
        (readers reg) = Some r
      \<and> readFile r memBuffer readFlags arches = Inl err"
  then show "Registry_readFile identify_magic reg memBuffer readFlags arches = Inl err"
    by (simp add: Registry_readFile_def readFile_loop_find)
next
  assume "find (\<lambda>q. canWrite q file) (writers reg) = Some w
      \<and> writeFile w os file = (Some err, os')"
  then show "Registry_writeFile reg os file = (Some err, os')"
    by (simp add: Registry_writeFile_def writeFile_loop_find)
next
  assume "Registry_getFileType identify_magic reg memBuffer = Inl err"
  then show "\<exists>q\<in>set (readers reg).
           getFileType q (identify_magic (Buffer memBuffer)) memBuffer = Inl err"
    by (simp add: Registry_getFileType_def getFileType_loop_error_origin)
next
  assume "\<exists>q\<in>set (readers reg).
          canRead q (identify_magic (Buffer memBuffer)) memBuffer FileType_All"
  then obtain q where
    q: "find (\<lambda>q. canRead q (identify_magic (Buffer memBuffer)) memBuffer FileType_All)
          (readers reg) = Some q"
    by (cases "find (\<lambda>q. canRead q (identify_magic (Buffer memBuffer)) memBuffer FileType_All)
          (readers reg)") (auto simp: find_None_iff)
  then have "q \<in> set (readers reg)"
    and "canRead q (identify_magic (Buffer memBuffer)) memBuffer FileType_All"
    by (auto simp: find_Some_iff)
  moreover from q have "Registry_readFile identify_magic reg memBuffer readFlags arches
               = readFile q memBuffer readFlags arches"
    by (simp add: Registry_readFile_def readFile_loop_find)
  ultimately show "\<exists>q\<in>set (readers reg).
           canRead q (identify_magic (Buffer memBuffer)) memBuffer FileType_All
           \<and> Registry_readFile identify_magic reg memBuffer readFlags arches
               = readFile q memBuffer readFlags arches"
    by blast
next
  assume "\<exists>q\<in>set (writers reg). canWrite q file"
  then obtain q where q: "find (\<lambda>q. canWrite q file) (writers reg) = Some q"
    by (cases "find (\<lambda>q. canWrite q file) (writers reg)") (auto simp: find_None_iff)
  then have "q \<in> set (writers reg)" and "canWrite q file"
    by (auto simp: find_Some_iff)
  moreover from q have "Registry_writeFile reg os file = writeFile q os file"
    by (simp add: Registry_writeFile_def writeFile_loop_find)
  ultimately show "\<exists>q\<in>set (writers reg).
           canWrite q file \<and> Registry_writeFile reg os file = writeFile q os file"
    by blast
qed

theorem registry_returns_component_errors_unchanged_witness:
  "Registry_getFileType sniff example_registry yaml_buffer = Inl (ErrorInfo ''malformed document'')
   \<and> Registry_readFile sniff example_registry yaml_buffer 0 0
       = Inl (ErrorInfo ''malformed document'')
   \<and> Registry_writeFile example_registry empty_stream (foo_file TBD_v2)
       = (Some (ErrorInfo ''cannot encode''), empty_stream)
   \<and> getFileType corrupt_reader (sniff (Buffer yaml_buffer)) yaml_buffer
       = Inl (ErrorInfo ''malformed document'')
   \<and> readFile corrupt_reader yaml_buffer 0 0 = Inl (ErrorInfo ''malformed document'')
   \<and> writeFile (failing_writer TBD_v2) empty_stream (foo_file TBD_v2)
       = (Some (ErrorInfo ''cannot encode''), empty_stream)"
  using registry_returns_component_errors_unchanged
    [of sniff yaml_buffer example_registry corrupt_reader "ErrorInfo ''malformed document''"
        0 0 "foo_file TBD_v2" "failing_writer TBD_v2" empty_stream empty_stream]
    registry_returns_component_errors_unchanged
    [of sniff yaml_buffer example_registry corrupt_reader "ErrorInfo ''cannot encode''"
        0 0 "foo_file TBD_v2" "failing_writer TBD_v2" empty_stream empty_stream]
  by (simp add: example_registry_def stub_reader_def corrupt_reader_def stub_writer_def
        failing_writer_def sniff_def yaml_buffer_def foo_file_def empty_stream_def
        FileType_All_def)

section \<open>Writing to the path of the file\<close>

lemma flush_nothing_written:
  "written (stream os) = [] \<Longrightarrow> raw_fd_ostream_flush os fs = (os, fs)"
  by (simp add: raw_fd_ostream_flush_def split: option.splits)

lemma return_after_close:
  assumes "raw_fd_ostream_close os fs = (os2, fs2)"
  shows "return_from_writeFile result os2 fs'
           = (if stream_error (stream os2) = None then Returned result else Fatal_error,
              stream os2, fs')"
proof -
  from assms have "FD os2 = None"
    by (auto simp: raw_fd_ostream_close_def split: prod.splits)
  then show ?thesis
    by (simp add: return_from_writeFile_def raw_fd_ostream_destructor_def)
qed

text \<open>
  C9. \<^verbatim>\<open>Registry::writeFile(file)\<close> opens the output file before any writer is asked.
  When the open succeeds and no registered writer accepts the file, the call returns the
  error "unsupported file type", and the file at the path of the \<^verbatim>\<open>File\<close> has been
  created or truncated: it is empty, whatever it held before.
\<close>

theorem writeFile_path_opens_before_dispatch:
  assumes "\<not> Registry_canWrite reg file"
    and "open_failure fs (Path file) = None"
  shows "Registry_writeFile_path reg file fs
           = (Returned (Some unsupported_file_type),
              \<lparr>written = [], stream_error = None\<rparr>,
              fs\<lparr>files := (files fs)(Path file \<mapsto> [])\<rparr>)"
proof -
  from assms(1) have "\<forall>q\<in>set (writers reg). \<not> canWrite q file"
    by (simp add: Registry_canWrite_def canWrite_loop_iff)
  from writeFile_loop_skip [OF this, of _ "[]"]
  have "Registry_writeFile reg os file = (Some unsupported_file_type, os)" for os
    by (simp add: Registry_writeFile_def)
  with assms(2) show ?thesis
    by (simp add: Registry_writeFile_path_def raw_fd_ostream_open_def return_from_writeFile_def
          raw_fd_ostream_destructor_def raw_fd_ostream_close_def flush_nothing_written)
qed

theorem writeFile_path_opens_before_dispatch_witness:
  "files (disk None) ''out/libFoo.tbd'' = Some ''old content''
   \<and> fst (Registry_writeFile_path example_registry (foo_file Configuration_v1) (disk None))
       = Returned (Some (StringError ''unsupported file type'' not_supported))
   \<and> files (snd (snd (Registry_writeFile_path example_registry (foo_file Configuration_v1)
         (disk None)))) ''out/libFoo.tbd'' = Some []"
proof -
  have h1: "\<not> Registry_canWrite example_registry (foo_file Configuration_v1)"
    by (simp add: Registry_canWrite_def example_registry_def stub_writer_def failing_writer_def
          foo_file_def)
  have h2: "open_failure (disk None) (Path (foo_file Configuration_v1)) = None"
    by (simp add: disk_def foo_file_def)
  from writeFile_path_opens_before_dispatch [OF h1 h2]
  show ?thesis by (simp add: disk_def foo_file_def unsupported_file_type_def)
qed

text \<open>
  After a successful open and a write that the writer reports as successful, the call
  never returns an error, whatever \<^verbatim>\<open>close()\<close> does: the second test of \<^verbatim>\<open>ec\<close> reads
  the value the constructor left there. The call returns success when the stream holds no
  error after the close, and otherwise the destructor of the stream ends the process.
\<close>

lemma writeFile_path_never_reports_close:
  assumes "open_failure fs (Path file) = None"
    and "Registry_writeFile reg \<lparr>written = [], stream_error = None\<rparr> file = (None, s1)"
  shows "fst (Registry_writeFile_path reg file fs)
           = (if stream_error (stream (fst (raw_fd_ostream_close
                   \<lparr>stream = s1, FD = Some (Path file)\<rparr>
                   (fs\<lparr>files := (files fs)(Path file \<mapsto> [])\<rparr>)))) = None
              then Returned None else Fatal_error)"
  using assms
  by (auto simp: Registry_writeFile_path_def raw_fd_ostream_open_def return_after_close
        split: prod.splits)

text \<open>
  C1. The claim is that \<^verbatim>\<open>Registry::writeFile(file)\<close> returns an error whenever closing
  the stream fails after a successful write. The code at such an input: the open succeeds,
  the only writer accepts the file and writes the document without error, and the flush
  that \<^verbatim>\<open>close()\<close> does fails for lack of space. The failure is recorded in the stream;
  the test of \<^verbatim>\<open>ec\<close> after \<^verbatim>\<open>close()\<close> does not see it, so the function goes on to
  \<^verbatim>\<open>return Error::success()\<close>, and the destructor of the stream, finding the error,
  ends the process. The caller is returned no error.
\<close>

theorem writeFile_path_close_failure_not_returned:
  "fst (Registry_writeFile_path
          (\<lparr>readers = [], writers = [stub_writer TBD_v2 ''--- !tapi-tbd-v2'']\<rparr>
             :: (nat, nat, nat) Registry)
          (foo_file TBD_v2) (disk (Some no_space_on_device))) = Fatal_error
   \<and> fst (snd (Registry_writeFile_path
          (\<lparr>readers = [], writers = [stub_writer TBD_v2 ''--- !tapi-tbd-v2'']\<rparr>
             :: (nat, nat, nat) Registry)
          (foo_file TBD_v2) (disk (Some no_space_on_device))))
       = \<lparr>written = ''--- !tapi-tbd-v2'', stream_error = Some no_space_on_device\<rparr>
   \<and> open_failure (disk (Some no_space_on_device)) (Path (foo_file TBD_v2)) = None
   \<and> Registry_writeFile
          (\<lparr>readers = [], writers = [stub_writer TBD_v2 ''--- !tapi-tbd-v2'']\<rparr>
             :: (nat, nat, nat) Registry)
          \<lparr>written = [], stream_error = None\<rparr> (foo_file TBD_v2)
       = (None, \<lparr>written = ''--- !tapi-tbd-v2'', stream_error = None\<rparr>)
   \<and> write_failure (disk (Some no_space_on_device)) (Path (foo_file TBD_v2))
       = Some no_space_on_device"
  by (simp add: Registry_writeFile_path_def raw_fd_ostream_open_def raw_fd_ostream_close_def
        raw_fd_ostream_flush_def raw_fd_ostream_destructor_def return_from_writeFile_def
        Registry_writeFile_def stub_writer_def foo_file_def disk_def)

text \<open>
  The same registry and file when the flush succeeds: the call returns success and the
  file holds the document. When the writer fails after writing, its error is returned and
  the destructor has flushed what was written.
\<close>

lemma writeFile_path_success:
  "Registry_writeFile_path
     (\<lparr>readers = [], writers = [stub_writer TBD_v2 ''--- !tapi-tbd-v2'']\<rparr>
        :: (nat, nat, nat) Registry)
     (foo_file TBD_v2) (disk None)
   = (Returned None, \<lparr>written = ''--- !tapi-tbd-v2'', stream_error = None\<rparr>,
      (disk None)\<lparr>files := [''out/libFoo.tbd'' \<mapsto> ''--- !tapi-tbd-v2'']\<rparr>)"
  by (simp add: Registry_writeFile_path_def raw_fd_ostream_open_def raw_fd_ostream_close_def
        raw_fd_ostream_flush_def raw_fd_ostream_destructor_def return_from_writeFile_def
        Registry_writeFile_def stub_writer_def foo_file_def disk_def)

lemma writeFile_path_writer_error_flushes:
  "Registry_writeFile_path
     (\<lparr>readers = [],
       writers = [\<lparr>canWrite = (\<lambda>file. True),
                   writeFile = (\<lambda>os file. (Some (ErrorInfo ''cannot encode''),
                                            os\<lparr>written := written os @ ''---''\<rparr>))\<rparr>]\<rparr>
        :: (nat, nat, nat) Registry)
     (foo_file TBD_v2) (disk None)
   = (Returned (Some (ErrorInfo ''cannot encode'')), \<lparr>written = ''---'', stream_error = None\<rparr>,
      (disk None)\<lparr>files := [''out/libFoo.tbd'' \<mapsto> ''---'']\<rparr>)"
  by (simp add: Registry_writeFile_path_def raw_fd_ostream_open_def raw_fd_ostream_close_def
        raw_fd_ostream_flush_def raw_fd_ostream_destructor_def return_from_writeFile_def
        Registry_writeFile_def foo_file_def disk_def)

section \<open>The standard helpers\<close>

text \<open>
  C10. \<^verbatim>\<open>addYAMLReaders\<close> registers one YAML reader holding the document handlers stub
  v1, stub v2, api v1 and configuration v1, in that order; \<^verbatim>\<open>addYAMLWriters\<close> registers
  one YAML writer holding stub v1, stub v2 and api v1 only. The configuration v1 handler
  is among the handlers of the reader and not among those of the writer.
\<close>

theorem standard_yaml_handlers:
  "readers (addYAMLReaders YAMLReader reg)
     = readers reg @ [YAMLReader [stub_v1_YAMLDocumentHandler, stub_v2_YAMLDocumentHandler,
                                  api_v1_YAMLDocumentHandler,
                                  configuration_v1_YAMLDocumentHandler]]
   \<and> writers (addYAMLReaders YAMLReader reg) = writers reg
   \<and> writers (addYAMLWriters YAMLWriter reg)
     = writers reg @ [YAMLWriter [stub_v1_YAMLDocumentHandler, stub_v2_YAMLDocumentHandler,
                                  api_v1_YAMLDocumentHandler]]
   \<and> readers (addYAMLWriters YAMLWriter reg) = readers reg
   \<and> configuration_v1_YAMLDocumentHandler
       \<in> set [stub_v1_YAMLDocumentHandler, stub_v2_YAMLDocumentHandler,
              api_v1_YAMLDocumentHandler, configuration_v1_YAMLDocumentHandler]
   \<and> configuration_v1_YAMLDocumentHandler
       \<notin> set [stub_v1_YAMLDocumentHandler, stub_v2_YAMLDocumentHandler,
              api_v1_YAMLDocumentHandler]"
  by (simp add: addYAMLReaders_def addYAMLWriters_def YAML_add_def Registry_add_Reader_def
        Registry_add_Writer_def)

end
